theory Spec2Isabelle
  imports Complex_Main
begin

section \<open>Extinction laws of astropysics.obstools\<close>

text \<open>
  A shallow embedding of the class \<open>Extinction\<close> and its subclasses in
  \<open>astropysics/obstools.py\<close>. Python floats and NumPy float64 values are read as
  real numbers. Where a comparison decides whether a call raises, in
  \<open>CardelliExtinction.f\<close>, the quotient compared is rounded as float64 division
  rounds it and the bounds are the doubles that the literals of the source denote.
  Everywhere else rounding is not modelled, and neither are the values \<open>inf\<close> and
  \<open>nan\<close> that IEEE arithmetic returns for a division by zero or a logarithm of a
  non-positive number: statements whose content depends on such a quotient or
  logarithm carry the non-zero divisor and the positive argument as hypotheses.
\<close>

subsection \<open>Exceptions and values\<close>

datatype error =
    ValueError
  | TypeError
  | KeyError
  | IndexError
  | NameError
  | AttributeError
  | NotImplementedError
  | AssertionError
  | PipelineError

text \<open>
  Numbers as the numerical code sees them: a scalar (a Python float or a NumPy float64),
  a zero-dimensional array (what \<open>np.array\<close> makes of a scalar) and a
  one-dimensional array.
\<close>

datatype npval = Scalar real | Arr0 real | Arr1 "real list"

text \<open>\<open>x[mask]\<close>: the elements of \<open>x\<close> where the mask is true.\<close>

fun compress :: "bool list \<Rightarrow> 'a list \<Rightarrow> 'a list" where
  "compress (m # ms) (x # xs) = (if m then x # compress ms xs else compress ms xs)"
| "compress _ _ = []"

text \<open>\<open>a[mask] += vals\<close>: the values are consumed in order at the true positions.\<close>

fun mask_iadd :: "bool list \<Rightarrow> real list \<Rightarrow> real list \<Rightarrow> real list" where
  "mask_iadd (m # ms) (a # as) vs =
     (if m then (case vs of [] \<Rightarrow> a # as | v # vs' \<Rightarrow> (a + v) # mask_iadd ms as vs')
      else a # mask_iadd ms as vs)"
| "mask_iadd _ as _ = as"

text \<open>\<open>a[mask] = vals\<close>.\<close>

fun mask_put :: "bool list \<Rightarrow> real list \<Rightarrow> real list \<Rightarrow> real list" where
  "mask_put (m # ms) (a # as) vs =
     (if m then (case vs of [] \<Rightarrow> a # as | v # vs' \<Rightarrow> v # mask_put ms as vs')
      else a # mask_put ms as vs)"
| "mask_put _ as _ = as"

subsection \<open>FMExtinction.f\<close>

record fm_consts =
  C1 :: real
  C2 :: real
  C3 :: real
  C4 :: real
  x0 :: real
  gamma :: real
  fmRv :: real

text \<open>The term \<open>xsq*((xsq-x0*x0)**2+xsq*gamma*gamma)**-2\<close> of the source.\<close>

definition fm_D :: "fm_consts \<Rightarrow> real \<Rightarrow> real" where
  "fm_D p xsq = xsq * (((xsq - x0 p * x0 p)\<^sup>2 + xsq * gamma p * gamma p) powi (- 2))"

text \<open>
  The Lorentzian-like term of Fitzpatrick and Massa (1990), whose form the docstring
  of the class names and which the specification calls the Lorentzian \<open>D(x)\<close>:
  \<open>x^2/((x^2-x0^2)^2+x^2*gamma^2)\<close>. It is here for comparison only; the source
  computes \<open>fm_D\<close>.
\<close>

definition lorentzian_D :: "real \<Rightarrow> real \<Rightarrow> real \<Rightarrow> real" where
  "lorentzian_D x0' gamma' x = x\<^sup>2 / ((x\<^sup>2 - x0'\<^sup>2)\<^sup>2 + x\<^sup>2 * gamma'\<^sup>2)"

definition fm_C4term :: "fm_consts \<Rightarrow> real \<Rightarrow> real" where
  "fm_C4term p x = C4 p * (0.5392 * (x - 5.9)\<^sup>2 + 0.05644 * (x - 5.9) ^ 3)"

text \<open>
  The branch \<open>np.isscalar(FMf)\<close>: one wavelength, not 0 (at 0 the source's \<open>x\<close>
  is infinite and its result \<open>nan\<close>, which the reals do not have).
\<close>

definition fm_f_scalar :: "fm_consts \<Rightarrow> real \<Rightarrow> real" where
  "fm_f_scalar p lamb =
     (let x = 10000 / lamb;
          xsq = x * x;
          D = fm_D p xsq;
          FMf = C1 p + C2 p * x + C3 p * D;
          FMf = (if x \<ge> 5.9 then FMf + fm_C4term p x else FMf)
      in FMf + fmRv p)"

text \<open>The other branch: a one-dimensional array, corrected through the mask \<open>C4m\<close>.\<close>

definition fm_f_array :: "fm_consts \<Rightarrow> real list \<Rightarrow> real list" where
  "fm_f_array p lamb =
     (let x = map (\<lambda>l. 10000 / l) lamb;
          xsq = map (\<lambda>v. v * v) x;
          D = map (fm_D p) xsq;
          FMf = map2 (\<lambda>v d. C1 p + C2 p * v + C3 p * d) x D;
          C4m = map (\<lambda>v. v \<ge> 5.9) x;
          FMf = mask_iadd C4m FMf (map (fm_C4term p) (compress C4m x))
      in map (\<lambda>v. v + fmRv p) FMf)"

definition fm_f :: "fm_consts \<Rightarrow> npval \<Rightarrow> npval" where
  "fm_f p lamb = (case lamb of
       Scalar l \<Rightarrow> Scalar (fm_f_scalar p l)
     | Arr0 l \<Rightarrow> Scalar (fm_f_scalar p l)
     | Arr1 ls \<Rightarrow> Arr1 (fm_f_array p ls))"

subsection \<open>Rounding to float64\<close>

text \<open>
  The nearest integer, ties to the even one, and the nearest double of a real number:
  53 significant bits, round to nearest, ties to even. The exponent range is not
  modelled (no overflow to infinity, no subnormal numbers).
\<close>

definition round_even :: "real \<Rightarrow> int" where
  "round_even m =
     (let n = \<lfloor>m\<rfloor>; r = m - of_int n
      in if r < 1 / 2 then n else if 1 / 2 < r then n + 1 else if even n then n else n + 1)"

definition fl64 :: "real \<Rightarrow> real" where
  "fl64 v =
     (if v = 0 then 0
      else (let e = \<lfloor>log 2 \<bar>v\<bar>\<rfloor>
            in of_int (round_even (v / 2 powi (e - 52))) * 2 powi (e - 52)))"

subsection \<open>CardelliExtinction.f\<close>

text \<open>\<open>np.polyval\<close>: the coefficients from the highest degree down, by Horner's rule.\<close>

definition polyval :: "real list \<Rightarrow> real \<Rightarrow> real" where
  "polyval cs x = foldl (\<lambda>acc c. acc * x + c) 0 cs"

text \<open>\<open>np.atleast_1d\<close> and \<open>np.isscalar\<close>.\<close>

fun atleast_1d :: "npval \<Rightarrow> real list" where
  "atleast_1d (Scalar l) = [l]"
| "atleast_1d (Arr0 l) = [l]"
| "atleast_1d (Arr1 ls) = ls"

fun isscalar :: "npval \<Rightarrow> bool" where
  "isscalar (Scalar _) = True"
| "isscalar _ = False"

text \<open>
  \<open>np.ndarray(shape, dtype)\<close> allocates without initialising: the contents are
  whatever the memory held, here a function \<open>g\<close> of the position.
\<close>

definition ndarray :: "(nat \<Rightarrow> real) \<Rightarrow> nat \<Rightarrow> real list" where
  "ndarray g n = map g [0..<n]"

text \<open>
  The body of \<open>CardelliExtinction.f\<close>. The quotient \<open>1e4/lamb\<close> is the float64
  quotient, and the bounds of the range test and of the masks are the doubles
  \<open>fl64 0.3\<close>, \<open>fl64 1.1\<close>, \<open>fl64 3.3\<close> and \<open>fl64 5.9\<close> (8 and 10 are
  doubles). The values of the two curves are computed over the reals. At a wavelength 0
  the source's \<open>x\<close> is infinite and fails the range test through \<open>10<x\<close>; here
  \<open>10000 / 0 = 0\<close> and it fails the same test through \<open>x<0.3\<close>. A quotient
  beyond the exponent range fails the test in the source and here alike.
\<close>

definition cardelli_f ::
  "real \<Rightarrow> (nat \<Rightarrow> real) \<Rightarrow> (nat \<Rightarrow> real) \<Rightarrow> npval \<Rightarrow> error + npval" where
  "cardelli_f Rv ga gb lamb =
     (let scalar = isscalar lamb;
          x = map (\<lambda>l. fl64 (10000 / l)) (atleast_1d lamb);
          a = ndarray ga (length x);
          b = ndarray gb (length x)
      in if list_ex (\<lambda>v. v < fl64 0.3 \<or> 10 < v) x then Inl ValueError
      else
        let irs = map (\<lambda>v. fl64 0.3 \<le> v \<and> v \<le> fl64 1.1) x;
            opts = map (\<lambda>v. fl64 1.1 \<le> v \<and> v \<le> fl64 3.3) x;
            nuv1s = map (\<lambda>v. fl64 3.3 \<le> v \<and> v \<le> fl64 5.9) x;
            nuv2s = map (\<lambda>v. fl64 5.9 \<le> v \<and> v \<le> 8) x;
            fuvs = map (\<lambda>v. 8 \<le> v \<and> v \<le> 10) x;
            a = mask_put irs a (map (\<lambda>v. 0.574 * v powr 1.61) (compress irs x));
            b = mask_put irs b (map (\<lambda>v. - 0.527 * v powr 1.61) (compress irs x));
            a = mask_put opts a
                  (map (\<lambda>v. polyval [0.32999, - 0.7753, 0.01979, 0.72085, - 0.02427,
                                      - 0.50447, 0.17699, 1] (v - 1.82)) (compress opts x));
            b = mask_put opts b
                  (map (\<lambda>v. polyval [- 2.09002, 5.3026, - 0.62251, - 5.38434, 1.07233,
                                      2.28305, 1.41338, 0] (v - 1.82)) (compress opts x));
            y = map (\<lambda>v. v - 5.9) (compress nuv1s x);
            Fa = map (\<lambda>u. - 0.04473 * u\<^sup>2 - 0.009779 * u ^ 3) y;
            Fb = map (\<lambda>u. - 0.2130 * u\<^sup>2 - 0.1207 * u ^ 3) y;
            a = mask_put nuv1s a
                  (map2 (\<lambda>v fa. 1.752 - 0.316 * v - 0.104 / ((v - 4.67)\<^sup>2 + 0.341) + fa)
                     (compress nuv1s x) Fa);
            b = mask_put nuv1s b
                  (map2 (\<lambda>v fb. - 3.09 + 1.825 * v + 1.206 / ((v - 4.62)\<^sup>2 + 0.263) + fb)
                     (compress nuv1s x) Fb);
            a = mask_put nuv2s a
                  (map (\<lambda>v. 1.752 - 0.316 * v - 0.104 / ((v - 4.67)\<^sup>2 + 0.341))
                     (compress nuv2s x));
            b = mask_put nuv2s b
                  (map (\<lambda>v. - 3.09 + 1.825 * v + 1.206 / ((v - 4.62)\<^sup>2 + 0.263))
                     (compress nuv2s x));
            a = mask_put fuvs a
                  (map (\<lambda>v. polyval [- 0.070, 0.137, - 0.628, - 1.073] (v - 8)) (compress fuvs x));
            b = mask_put fuvs b
                  (map (\<lambda>v. polyval [0.374, - 0.42, 4.257, 13.67] (v - 8)) (compress fuvs x));
            AloAv = map2 (\<lambda>u w. u + w / Rv) a b
        in if scalar then Inr (Scalar (AloAv ! 0)) else Inr (Arr1 AloAv))"

text \<open>
  The two auxiliary curves of the law, one inverse-micron value at a time. Where two
  regimes meet, the later assignment of the source overwrites the earlier one.
\<close>

definition ccm_a :: "real \<Rightarrow> real" where
  "ccm_a v =
     (if 8 \<le> v then polyval [- 0.070, 0.137, - 0.628, - 1.073] (v - 8)
      else if fl64 5.9 \<le> v then 1.752 - 0.316 * v - 0.104 / ((v - 4.67)\<^sup>2 + 0.341)
      else if fl64 3.3 \<le> v then 1.752 - 0.316 * v - 0.104 / ((v - 4.67)\<^sup>2 + 0.341)
                            + (- 0.04473 * (v - 5.9)\<^sup>2 - 0.009779 * (v - 5.9) ^ 3)
      else if fl64 1.1 \<le> v then polyval [0.32999, - 0.7753, 0.01979, 0.72085, - 0.02427,
                                     - 0.50447, 0.17699, 1] (v - 1.82)
      else 0.574 * v powr 1.61)"

definition ccm_b :: "real \<Rightarrow> real" where
  "ccm_b v =
     (if 8 \<le> v then polyval [0.374, - 0.42, 4.257, 13.67] (v - 8)
      else if fl64 5.9 \<le> v then - 3.09 + 1.825 * v + 1.206 / ((v - 4.62)\<^sup>2 + 0.263)
      else if fl64 3.3 \<le> v then - 3.09 + 1.825 * v + 1.206 / ((v - 4.62)\<^sup>2 + 0.263)
                            + (- 0.2130 * (v - 5.9)\<^sup>2 - 0.1207 * (v - 5.9) ^ 3)
      else if fl64 1.1 \<le> v then polyval [- 2.09002, 5.3026, - 0.62251, - 5.38434, 1.07233,
                                     2.28305, 1.41338, 0] (v - 1.82)
      else - 0.527 * v powr 1.61)"

subsection \<open>NumPy arithmetic\<close>

text \<open>
  A binary operation with broadcasting. Two one-dimensional arrays combine when their
  lengths agree or one of them has length one; anything else is NumPy's
  \<open>ValueError\<close> (operands could not be broadcast together). An operation between
  two zero-dimensional operands returns a scalar.
\<close>

fun np_binop :: "(real \<Rightarrow> real \<Rightarrow> real) \<Rightarrow> npval \<Rightarrow> npval \<Rightarrow> error + npval" where
  "np_binop h (Arr1 xs) (Arr1 ys) =
     (if length xs = length ys then Inr (Arr1 (map2 h xs ys))
      else (case xs of
              [u] \<Rightarrow> Inr (Arr1 (map (h u) ys))
            | _ \<Rightarrow> (case ys of
                      [w] \<Rightarrow> Inr (Arr1 (map (\<lambda>u. h u w) xs))
                    | _ \<Rightarrow> Inl ValueError)))"
| "np_binop h (Arr1 xs) (Scalar w) = Inr (Arr1 (map (\<lambda>u. h u w) xs))"
| "np_binop h (Arr1 xs) (Arr0 w) = Inr (Arr1 (map (\<lambda>u. h u w) xs))"
| "np_binop h (Scalar u) (Arr1 ys) = Inr (Arr1 (map (h u) ys))"
| "np_binop h (Arr0 u) (Arr1 ys) = Inr (Arr1 (map (h u) ys))"
| "np_binop h (Scalar u) (Scalar w) = Inr (Scalar (h u w))"
| "np_binop h (Scalar u) (Arr0 w) = Inr (Scalar (h u w))"
| "np_binop h (Arr0 u) (Scalar w) = Inr (Scalar (h u w))"
| "np_binop h (Arr0 u) (Arr0 w) = Inr (Scalar (h u w))"

text \<open>An elementwise function, or an operation with a Python number.\<close>

fun np_map :: "(real \<Rightarrow> real) \<Rightarrow> npval \<Rightarrow> npval" where
  "np_map h (Scalar u) = Scalar (h u)"
| "np_map h (Arr0 u) = Scalar (h u)"
| "np_map h (Arr1 xs) = Arr1 (map h xs)"

text \<open>\<open>a *= v\<close> on a one-dimensional array: the result must fit the array \<open>a\<close>.\<close>

fun np_imul :: "real list \<Rightarrow> npval \<Rightarrow> error + real list" where
  "np_imul a (Scalar w) = Inr (map (\<lambda>u. u * w) a)"
| "np_imul a (Arr0 w) = Inr (map (\<lambda>u. u * w) a)"
| "np_imul a (Arr1 ys) =
     (if length a = length ys then Inr (map2 (*) a ys)
      else (case ys of [w] \<Rightarrow> Inr (map (\<lambda>u. u * w) a) | _ \<Rightarrow> Inl ValueError))"

text \<open>
  \<open>np.std\<close>: the root of the mean squared deviation from the mean (of an empty
  array NumPy returns \<open>nan\<close>, which the reals do not have).
\<close>

definition np_mean :: "real list \<Rightarrow> real" where
  "np_mean xs = sum_list xs / real (length xs)"

definition np_std :: "npval \<Rightarrow> real" where
  "np_std v =
     (let xs = atleast_1d v; m = np_mean xs
      in sqrt (np_mean (map (\<lambda>u. (u - m)\<^sup>2) xs)))"

subsection \<open>Python values\<close>

text \<open>
  The arguments whose type the source inspects at run time: \<open>None\<close>, a number, a
  string, a list (or tuple) of numbers and strings, a one-dimensional array.
\<close>

datatype atom = ANum real | AStr string

datatype pyval = PNone | PNum real | PStr string | PList "atom list" | PArray "real list"

text \<open>
  What a shape function is called with: a number or numeric array, or something
  non-numeric (a string, an array of strings or of objects).
\<close>

datatype ndarg = Numeric npval | NonNumeric

subsection \<open>The collaborators of the class\<close>

text \<open>
  What the module takes from outside this file: the table \<open>bandwl\<close> of
  \<open>astropysics.phot\<close> (band name to wavelength), the conversion of a spectrum's
  axis between units (see \<open>spectrum\<close> below), the contents of freshly allocated
  arrays, and whether the base class \<open>PipelineElement\<close> of
  \<open>astropysics.utils\<close> gives the object an attribute \<open>insert\<close>.
\<close>

record env =
  bandwl :: "string \<Rightarrow> real option"
  xconv :: "string \<Rightarrow> string \<Rightarrow> real list \<Rightarrow> real list"
  uninit_a :: "nat \<Rightarrow> real"
  uninit_b :: "nat \<Rightarrow> real"
  has_insert :: bool

subsection \<open>The class Extinction and its subclasses\<close>

datatype law_class =
    Extinction
  | CalzettiExtinction
  | EBmVExtinction real
  | FMExtinction fm_consts
  | CardelliExtinction real

record plbuffer =
  inq :: "(string \<times> nat) list"
  outq :: "nat list"

text \<open>
  An instance: its class with the constants fixed at construction (\<open>Rv\<close>, the
  Fitzpatrick-Massa constants), the instance attribute \<open>f\<close> that
  \<open>Extinction.__init__\<close> may set (it hides the method \<open>f\<close> of the class), the
  normalization \<open>A0\<close> and the pipeline buffer \<open>_plbuffer\<close>.
\<close>

record extinction =
  cls :: law_class
  f_attr :: "pyval option"
  A0 :: npval
  plbuf :: "plbuffer option"

text \<open>The argument \<open>f\<close> of \<open>Extinction.__init__\<close>.\<close>

datatype fparam = FNone | FCallable "ndarg \<Rightarrow> error + npval" | FNonCallable pyval

text \<open>\<open>Extinction.__init__(self,f=None,A0=1)\<close>.\<close>

definition Extinction_init :: "fparam \<Rightarrow> npval \<Rightarrow> error + extinction" where
  "Extinction_init fp a0 =
     (case fp of
        FNone \<Rightarrow> Inr \<lparr>cls = Extinction, f_attr = None, A0 = a0, plbuf = None\<rparr>
      | FNonCallable v \<Rightarrow> Inr \<lparr>cls = Extinction, f_attr = Some v, A0 = a0, plbuf = None\<rparr>
      | FCallable g \<Rightarrow> Inl ValueError)"

text \<open>\<open>CalzettiExtinction.f\<close>, with \<open>_poly = np.poly1d((0.011,-0.198,1.509,-2.156))\<close>.\<close>

definition calzetti_f :: "npval \<Rightarrow> npval" where
  "calzetti_f lamb =
     np_map (\<lambda>l. (- 2.5 / ln 10) * polyval [0.011, - 0.198, 1.509, - 2.156] (10000 / l)) lamb"

text \<open>
  \<open>self.f(lamb)\<close>: the instance attribute when there is one (it is never callable,
  so the call is a \<open>TypeError\<close>), else the method of the class. The methods of the
  concrete laws start by dividing \<open>1e4\<close> by the argument, which is a \<open>TypeError\<close>
  on a non-numeric one.
\<close>

definition Extinction_f :: "env \<Rightarrow> extinction \<Rightarrow> ndarg \<Rightarrow> error + npval" where
  "Extinction_f E self lamb =
     (case f_attr self of
        Some v \<Rightarrow> Inl TypeError
      | None \<Rightarrow>
          (case cls self of
             Extinction \<Rightarrow> Inl NotImplementedError
           | EBmVExtinction rv \<Rightarrow> Inl NotImplementedError
           | CalzettiExtinction \<Rightarrow>
               (case lamb of Numeric l \<Rightarrow> Inr (calzetti_f l) | NonNumeric \<Rightarrow> Inl TypeError)
           | FMExtinction p \<Rightarrow>
               (case lamb of Numeric l \<Rightarrow> Inr (fm_f p l) | NonNumeric \<Rightarrow> Inl TypeError)
           | CardelliExtinction rv \<Rightarrow>
               (case lamb of
                  Numeric l \<Rightarrow> cardelli_f rv (uninit_a E) (uninit_b E) l
                | NonNumeric \<Rightarrow> Inl TypeError)))"

text \<open>\<open>__call__\<close>: \<open>self.A0*self.f(lamb)\<close>.\<close>

definition Extinction_call :: "env \<Rightarrow> extinction \<Rightarrow> ndarg \<Rightarrow> error + npval" where
  "Extinction_call E self lamb =
     (case Extinction_f E self lamb of
        Inl e \<Rightarrow> Inl e
      | Inr v \<Rightarrow> np_binop (*) (A0 self) v)"

subsection \<open>The property EBmV\<close>

text \<open>
  \<open>self.Rv\<close>, an attribute of the instances of \<open>_EBmVExtinction\<close> and its
  subclasses only.
\<close>

fun law_Rv :: "law_class \<Rightarrow> real option" where
  "law_Rv (EBmVExtinction rv) = Some rv"
| "law_Rv (FMExtinction p) = Some (fmRv p)"
| "law_Rv (CardelliExtinction rv) = Some rv"
| "law_Rv _ = None"

text \<open>
  \<open>_getEBmV\<close> and \<open>_setEBmV\<close>. The class attribute \<open>__lambdaV\<close> is
  \<open>bandwl['V']\<close>; without that entry the class cannot be created, which is the
  \<open>KeyError\<close> here.
\<close>

definition getEBmV :: "env \<Rightarrow> extinction \<Rightarrow> error + npval" where
  "getEBmV E self =
     (case law_Rv (cls self) of
        None \<Rightarrow> Inl AttributeError
      | Some rv \<Rightarrow>
          (case bandwl E ''V'' of
             None \<Rightarrow> Inl KeyError
           | Some lambdaV \<Rightarrow>
               (case Extinction_call E self (Numeric (Scalar lambdaV)) of
                  Inl e \<Rightarrow> Inl e
                | Inr v \<Rightarrow> Inr (np_map (\<lambda>u. u / rv) v))))"

definition setEBmV :: "env \<Rightarrow> extinction \<Rightarrow> npval \<Rightarrow> error + extinction" where
  "setEBmV E self val =
     (case law_Rv (cls self) of
        None \<Rightarrow> Inl AttributeError
      | Some rv \<Rightarrow>
          (let Av = np_map (\<lambda>u. rv * u) val
           in case bandwl E ''V'' of
                None \<Rightarrow> Inl KeyError
              | Some lambdaV \<Rightarrow>
                  (case Extinction_f E self (Numeric (Scalar lambdaV)) of
                     Inl e \<Rightarrow> Inl e
                   | Inr v \<Rightarrow>
                       (case np_binop (/) Av v of
                          Inl e \<Rightarrow> Inl e
                        | Inr a \<Rightarrow> Inr (self\<lparr>A0 := a\<rparr>)))))"

text \<open>
  The constructors of the subclasses. \<open>_EBmVExtinction.__init__\<close> calls the base
  constructor with \<open>f=None\<close> and \<open>A0=1\<close> and then assigns the property
  \<open>EBmV\<close>; \<open>LMCExtinction\<close> and \<open>SMCExtinction\<close> fix the six constants.
\<close>

definition EBmV_init :: "env \<Rightarrow> law_class \<Rightarrow> npval \<Rightarrow> error + extinction" where
  "EBmV_init E c EBmV =
     setEBmV E \<lparr>cls = c, f_attr = None, A0 = Scalar 1, plbuf = None\<rparr> EBmV"

definition LMCExtinction :: "real \<Rightarrow> law_class" where
  "LMCExtinction rv = FMExtinction
     \<lparr>C1 = - 0.890, C2 = 0.998, C3 = 2.719, C4 = 0.400, x0 = 4.579, gamma = 0.934, fmRv = rv\<rparr>"

definition SMCExtinction :: "real \<Rightarrow> law_class" where
  "SMCExtinction rv = FMExtinction
     \<lparr>C1 = - 4.959, C2 = 2.264, C3 = 0.389, C4 = 0.461, x0 = 4.6, gamma = 1, fmRv = rv\<rparr>"

subsection \<open>Python strings\<close>

text \<open>\<open>s.replace(old, new)\<close>: every occurrence, found from the left.\<close>

function replace_from :: "string \<Rightarrow> string \<Rightarrow> string \<Rightarrow> string" where
  "replace_from old new [] = []"
| "replace_from old new (c # cs) =
     (if old \<noteq> [] \<and> take (length old) (c # cs) = old
      then new @ replace_from old new (drop (length old) (c # cs))
      else c # replace_from old new cs)"
  by pat_completeness auto
termination
  by (relation "measure (\<lambda>(old, new, s). length s)") auto

definition py_replace :: "string \<Rightarrow> string \<Rightarrow> string \<Rightarrow> string" where
  "py_replace s old new =
     (if old = [] then new @ concat (map (\<lambda>c. c # new) s) else replace_from old new s)"

text \<open>\<open>s.split(sep)\<close> for a separator of one character.\<close>

fun py_split :: "char \<Rightarrow> string \<Rightarrow> string list" where
  "py_split sep [] = [[]]"
| "py_split sep (c # cs) =
     (if c = sep then [] # py_split sep cs
      else (case py_split sep cs of p # ps \<Rightarrow> (c # p) # ps | [] \<Rightarrow> [[c]]))"

text \<open>\<open>b1,b2 = seq\<close>: a sequence of any other length is a \<open>ValueError\<close>.\<close>

fun unpack2 :: "'a list \<Rightarrow> error + 'a \<times> 'a" where
  "unpack2 [a, b] = Inr (a, b)"
| "unpack2 _ = Inl ValueError"

subsection \<open>correctColor\<close>

datatype bands = BandsStr string | BandsSeq "atom list"

text \<open>\<open>bandwl[b]\<close>: the keys of the table are band names.\<close>

definition bandwl_getitem :: "env \<Rightarrow> atom \<Rightarrow> error + atom" where
  "bandwl_getitem E b =
     (case b of
        AStr s \<Rightarrow> (case bandwl E s of None \<Rightarrow> Inl KeyError | Some w \<Rightarrow> Inr (ANum w))
      | ANum r \<Rightarrow> Inl KeyError)"

fun isinstance_basestring :: "atom \<Rightarrow> bool" where
  "isinstance_basestring (AStr s) = True"
| "isinstance_basestring (ANum r) = False"

fun as_arg :: "atom \<Rightarrow> ndarg" where
  "as_arg (ANum r) = Numeric (Scalar r)"
| "as_arg (AStr s) = NonNumeric"

definition correctColor :: "env \<Rightarrow> extinction \<Rightarrow> npval \<Rightarrow> bands \<Rightarrow> error + npval" where
  "correctColor E self colors bnds =
     (case (case bnds of
              BandsStr s \<Rightarrow>
                unpack2 (map AStr (py_split CHR '','' (py_replace (py_replace s ''E('' '''') '')'' '''')))
            | BandsSeq bs \<Rightarrow> unpack2 bs) of
        Inl e \<Rightarrow> Inl e
      | Inr (b1, b2) \<Rightarrow>
          (case (if isinstance_basestring b1 then bandwl_getitem E b1 else Inr b1) of
             Inl e \<Rightarrow> Inl e
           | Inr wl1 \<Rightarrow>
               (case (if isinstance_basestring b1 then bandwl_getitem E b2 else Inr b2) of
                  Inl e \<Rightarrow> Inl e
                | Inr wl2 \<Rightarrow>
                    (case Extinction_call E self (as_arg wl1) of
                       Inl e \<Rightarrow> Inl e
                     | Inr v1 \<Rightarrow>
                         (case np_binop (-) colors v1 of
                            Inl e \<Rightarrow> Inl e
                          | Inr d \<Rightarrow>
                              (case Extinction_call E self (as_arg wl2) of
                                 Inl e \<Rightarrow> Inl e
                               | Inr v2 \<Rightarrow> np_binop (+) d v2))))))"

subsection \<open>Spectra and correctSpectrum\<close>

text \<open>
  Modelled from the spec: the class \<open>Spectrum\<close> of \<open>astropysics.spec\<close>, which is
  not in this file. A spectrum holds an axis, a flux and an error sequence and a unit
  tag that selects how the axis is read; assigning the tag converts the axis (through
  \<open>xconv\<close> of the environment, from the old unit to the new one); \<open>copy\<close>
  makes a new object with the same contents.
\<close>

record spectrum =
  spec_x :: "real list"
  spec_flux :: "real list"
  spec_err :: "real list"
  spec_unit :: string

text \<open>The objects on the heap, by reference, and the next free reference.\<close>

record store =
  objs :: "nat \<Rightarrow> spectrum"
  fresh :: nat

definition spectrum_copy :: "store \<Rightarrow> nat \<Rightarrow> store \<times> nat" where
  "spectrum_copy st r =
     (st\<lparr>objs := (objs st)(fresh st := objs st r), fresh := Suc (fresh st)\<rparr>, fresh st)"

definition set_unit :: "env \<Rightarrow> string \<Rightarrow> spectrum \<Rightarrow> spectrum" where
  "set_unit E u sp = sp\<lparr>spec_x := xconv E (spec_unit sp) u (spec_x sp), spec_unit := u\<rparr>"

definition upd_obj :: "store \<Rightarrow> nat \<Rightarrow> (spectrum \<Rightarrow> spectrum) \<Rightarrow> store" where
  "upd_obj st r h = st\<lparr>objs := (objs st)(r := h (objs st r))\<rparr>"

text \<open>
  \<open>correctSpectrum(self,spec,newspec=True)\<close>. The result is the store as the call
  leaves it, also when it raises, and the reference returned.
\<close>

definition correctSpectrum ::
  "env \<Rightarrow> extinction \<Rightarrow> store \<Rightarrow> nat \<Rightarrow> bool \<Rightarrow> store \<times> (error + nat)" where
  "correctSpectrum E self st0 spec0 newspec =
     (let (st, spec) = (if newspec then spectrum_copy st0 spec0 else (st0, spec0));
          oldunit = spec_unit (objs st spec);
          st = upd_obj st spec (set_unit E ''wavelength-angstrom'')
      in case Extinction_call E self (Numeric (Arr1 (spec_x (objs st spec)))) of
           Inl e \<Rightarrow> (st, Inl e)
         | Inr v \<Rightarrow>
             (let corr = np_map (\<lambda>u. 10 powr u) (np_map (\<lambda>u. u / 2.5) v)
              in case np_imul (spec_flux (objs st spec)) corr of
                   Inl e \<Rightarrow> (st, Inl e)
                 | Inr fl \<Rightarrow>
                     (let st = upd_obj st spec (\<lambda>sp. sp\<lparr>spec_flux := fl\<rparr>)
                      in case np_imul (spec_err (objs st spec)) corr of
                           Inl e \<Rightarrow> (st, Inl e)
                         | Inr er \<Rightarrow>
                             (let st = upd_obj st spec (\<lambda>sp. sp\<lparr>spec_err := er\<rparr>);
                                  st = upd_obj st spec (set_unit E oldunit)
                              in (st, Inr spec)))))"

subsection \<open>The pipeline methods\<close>

text \<open>What \<open>_plFeed\<close> is given: a \<open>Spectrum\<close> on the heap or anything else.\<close>

datatype pldata = SpectrumObj nat | OtherObj

text \<open>\<open>if self._plbuffer is None: self._plbuffer = {'in':[],'out':[]}\<close>.\<close>

definition plbuffer_init :: "extinction \<Rightarrow> extinction" where
  "plbuffer_init self =
     (case plbuf self of
        None \<Rightarrow> self\<lparr>plbuf := Some \<lparr>inq = [], outq = []\<rparr>\<rparr>
      | Some b \<Rightarrow> self)"

definition the_plbuffer :: "extinction \<Rightarrow> plbuffer" where
  "the_plbuffer self = (case plbuf self of Some b \<Rightarrow> b | None \<Rightarrow> \<lparr>inq = [], outq = []\<rparr>)"

definition plFeed :: "extinction \<Rightarrow> pldata \<Rightarrow> extinction \<times> (error + unit)" where
  "plFeed self0 data =
     (let self = plbuffer_init self0; b = the_plbuffer self
      in case data of
           SpectrumObj r \<Rightarrow> (self\<lparr>plbuf := Some (b\<lparr>inq := inq b @ [(''spec'', r)]\<rparr>)\<rparr>, Inr ())
         | OtherObj \<Rightarrow> (self, Inl PipelineError))"

text \<open>
  The handler of \<open>_plProcess\<close>, \<open>self.insert(0,spec(type,data))\<close>: the attribute
  \<open>insert\<close> is looked up first, then the name \<open>spec\<close>, which is bound neither in
  the method nor in the module.
\<close>

definition plProcess_handler :: "env \<Rightarrow> error" where
  "plProcess_handler E = (if has_insert E then NameError else AttributeError)"

definition plProcess ::
  "env \<Rightarrow> extinction \<Rightarrow> store \<Rightarrow> (extinction \<times> store) \<times> (error + unit)" where
  "plProcess E self0 st =
     (let self = plbuffer_init self0; b = the_plbuffer self
      in case inq b of
           [] \<Rightarrow> ((self, st), Inl IndexError)
         | (type, data) # rest \<Rightarrow>
             (let self = self\<lparr>plbuf := Some (b\<lparr>inq := rest\<rparr>)\<rparr>
              in if type = ''spec'' then
                   (case correctSpectrum E self st data True of
                      (st', Inr newspec) \<Rightarrow>
                        ((self\<lparr>plbuf := Some (b\<lparr>inq := rest, outq := outq b @ [newspec]\<rparr>)\<rparr>, st'),
                         Inr ())
                    | (st', Inl e) \<Rightarrow> ((self, st'), Inl (plProcess_handler E)))
                 else ((self, st), Inl (plProcess_handler E))))"

text \<open>
  The test of \<open>_plExtract\<close>, \<open>len(self._plbuffer['out']<1)\<close>: the comparison of
  the list with the integer comes first and is false (Python 2 orders a number before
  any list), and its result, a boolean, has no length.
\<close>

datatype dyn = DBool bool | DList "nat list"

definition py2_list_lt_int :: "nat list \<Rightarrow> int \<Rightarrow> bool" where
  "py2_list_lt_int xs i = False"

fun py_len :: "dyn \<Rightarrow> error + nat" where
  "py_len (DList xs) = Inr (length xs)"
| "py_len (DBool p) = Inl TypeError"

definition plExtract :: "extinction \<Rightarrow> extinction \<times> (error + nat option)" where
  "plExtract self0 =
     (let self = plbuffer_init self0; b = the_plbuffer self
      in case py_len (DBool (py2_list_lt_int (outq b) 1)) of
           Inl e \<Rightarrow> (self, Inl e)
         | Inr n \<Rightarrow>
             if n \<noteq> 0 then (self, Inr None)
             else (case outq b of
                     [] \<Rightarrow> (self, Inl IndexError)
                   | r # rest \<Rightarrow> (self\<lparr>plbuf := Some (b\<lparr>outq := rest\<rparr>)\<rparr>, Inr (Some r))))"

definition plClear :: "extinction \<Rightarrow> extinction" where
  "plClear self = self\<lparr>plbuf := None\<rparr>"

subsection \<open>computeA0FromFluxRatio\<close>

text \<open>The table \<open>__balmerratios\<close>: ratio, first and second wavelength.\<close>

definition balmerratios :: "string \<Rightarrow> (real \<times> real \<times> real) option" where
  "balmerratios = map_of
     [(''Hab'', (2.86, 6562.82, 4861.33)),
      (''Hag'', (6.16, 6562.82, 4340.46)),
      (''Had'', (11.21, 6562.82, 4101.74)),
      (''Hae'', (18.16, 6562.82, 3970.07)),
      (''Hbg'', (2.15, 4861.33, 4340.46)),
      (''Hbd'', (3.91, 4861.33, 4101.74)),
      (''Hbe'', (6.33, 4861.33, 3970.07)),
      (''Hgd'', (1.82, 4340.46, 4101.74)),
      (''Hge'', (2.95, 4340.46, 3970.07)),
      (''Hde'', (1.62, 4101.74, 3970.07))]"

text \<open>
  The numbers of a sequence all of whose items are numbers, and \<open>np.array\<close>: a
  number becomes a zero-dimensional array, a sequence of numbers a one-dimensional
  one, and a sequence that holds a string an array of strings.
\<close>

fun atom_nums :: "atom list \<Rightarrow> real list option" where
  "atom_nums [] = Some []"
| "atom_nums (ANum r # as) = (case atom_nums as of None \<Rightarrow> None | Some rs \<Rightarrow> Some (r # rs))"
| "atom_nums (AStr s # as) = None"

fun np_array :: "pyval \<Rightarrow> ndarg" where
  "np_array (PNum r) = Numeric (Arr0 r)"
| "np_array (PArray xs) = Numeric (Arr1 xs)"
| "np_array (PList as) = (case atom_nums as of None \<Rightarrow> NonNumeric | Some rs \<Rightarrow> Numeric (Arr1 rs))"
| "np_array (PStr s) = NonNumeric"
| "np_array PNone = NonNumeric"

text \<open>
  A variable of the method holds either the Python object it was given or an array
  made by \<open>np.array\<close>. In arithmetic a number and a numeric array are operands; a
  Python list is an operand only beside the float of the table (\<open>R = measured\<close>
  with a named transition), where Python has no division, and strings and \<open>None\<close>
  never are.
\<close>

datatype operand = Py pyval | Nd ndarg

fun num_of :: "operand \<Rightarrow> npval option" where
  "num_of (Py (PNum r)) = Some (Scalar r)"
| "num_of (Py (PArray xs)) = Some (Arr1 xs)"
| "num_of (Py v) = None"
| "num_of (Nd (Numeric v)) = Some v"
| "num_of (Nd NonNumeric) = None"

definition truediv :: "operand \<Rightarrow> operand \<Rightarrow> error + npval" where
  "truediv a b =
     (case num_of a of
        None \<Rightarrow> Inl TypeError
      | Some u \<Rightarrow> (case num_of b of None \<Rightarrow> Inl TypeError | Some w \<Rightarrow> np_binop (/) u w))"

definition arg_of :: "operand \<Rightarrow> ndarg" where
  "arg_of a = (case num_of a of None \<Rightarrow> NonNumeric | Some v \<Rightarrow> Numeric v)"

text \<open>\<open>expected[0]\<close>.\<close>

fun getitem0 :: "pyval \<Rightarrow> error + atom" where
  "getitem0 (PList (a # as)) = Inr a"
| "getitem0 (PList []) = Inl IndexError"
| "getitem0 (PArray (r # rs)) = Inr (ANum r)"
| "getitem0 (PArray []) = Inl IndexError"
| "getitem0 (PStr (c # cs)) = Inr (AStr [c])"
| "getitem0 (PStr []) = Inl IndexError"
| "getitem0 (PNum r) = Inl TypeError"
| "getitem0 PNone = Inl TypeError"

text \<open>\<open>for e in expected\<close>.\<close>

fun py_items :: "pyval \<Rightarrow> error + atom list" where
  "py_items (PList as) = Inr as"
| "py_items (PArray rs) = Inr (map ANum rs)"
| "py_items (PStr s) = Inr (map (\<lambda>c. AStr [c]) s)"
| "py_items (PNum r) = Inl TypeError"
| "py_items PNone = Inl TypeError"

text \<open>
  The truth value of an object in a condition; that of an array with more than one
  element is NumPy's \<open>ValueError\<close>.
\<close>

fun py_truth :: "pyval \<Rightarrow> error + bool" where
  "py_truth PNone = Inr False"
| "py_truth (PNum r) = Inr (r \<noteq> 0)"
| "py_truth (PStr s) = Inr (s \<noteq> [])"
| "py_truth (PList as) = Inr (as \<noteq> [])"
| "py_truth (PArray []) = Inr False"
| "py_truth (PArray [r]) = Inr (r \<noteq> 0)"
| "py_truth (PArray (r # r' # rs)) = Inl ValueError"

text \<open>The loop over the transitions: \<open>balmertuple = Extinction.__balmerratios[e]\<close>.\<close>

fun balmer_lookup :: "atom list \<Rightarrow> error + (real \<times> real \<times> real) list" where
  "balmer_lookup [] = Inr []"
| "balmer_lookup (ANum r # es) = Inl KeyError"
| "balmer_lookup (AStr k # es) =
     (case balmerratios k of
        None \<Rightarrow> Inl KeyError
      | Some t \<Rightarrow> (case balmer_lookup es of Inl e \<Rightarrow> Inl e | Inr ts \<Rightarrow> Inr (t # ts)))"

text \<open>
  The first statement of the method, the three branches on \<open>expected\<close>. It gives
  the variables \<open>R\<close>, \<open>R0\<close>, \<open>lambda1\<close> and \<open>lambda2\<close>; the branch for a
  sequence of transitions binds no \<open>R\<close>.
\<close>

definition resolve_expected ::
  "pyval \<Rightarrow> pyval \<Rightarrow> pyval \<Rightarrow> pyval \<Rightarrow> error + (operand option \<times> operand \<times> operand \<times> operand)" where
  "resolve_expected measured expected lambda1 lambda2 =
     (case expected of
        PStr k \<Rightarrow>
          (case balmerratios k of
             None \<Rightarrow> Inl KeyError
           | Some (R0, l1, l2) \<Rightarrow> Inr (Some (Py measured), Py (PNum R0), Py (PNum l1), Py (PNum l2)))
      | _ \<Rightarrow>
          (case getitem0 expected of
             Inl e \<Rightarrow> Inl e
           | Inr e0 \<Rightarrow>
               if isinstance_basestring e0 then
                 (case py_items expected of
                    Inl e \<Rightarrow> Inl e
                  | Inr es \<Rightarrow>
                      if \<not> list_all isinstance_basestring es then Inl ValueError
                      else (case balmer_lookup es of
                              Inl e \<Rightarrow> Inl e
                            | Inr ts \<Rightarrow>
                                Inr (None,
                                     Nd (Numeric (Arr1 (map fst ts))),
                                     Nd (Numeric (Arr1 (map (\<lambda>t. fst (snd t)) ts))),
                                     Nd (Numeric (Arr1 (map (\<lambda>t. snd (snd t)) ts))))))
               else
                 (case py_truth lambda1 of
                    Inl e \<Rightarrow> Inl e
                  | Inr t1 \<Rightarrow>
                      (case (if t1 then py_truth lambda2 else Inr False) of
                         Inl e \<Rightarrow> Inl e
                       | Inr t \<Rightarrow>
                           if t then
                             Inr (Some (Nd (np_array measured)), Nd (np_array expected),
                                  Nd (np_array lambda1), Nd (np_array lambda2))
                           else Inl ValueError))))"

definition apply_filterfunc :: "(npval \<Rightarrow> error + npval) option \<Rightarrow> npval \<Rightarrow> error + npval" where
  "apply_filterfunc filterfunc v = (case filterfunc of None \<Rightarrow> Inr v | Some g \<Rightarrow> g v)"

text \<open>
  \<open>computeA0FromFluxRatio\<close>: the instance as the call leaves it, also when it
  raises, and the pair returned.
\<close>

definition computeA0FromFluxRatio ::
  "env \<Rightarrow> extinction \<Rightarrow> pyval \<Rightarrow> pyval \<Rightarrow> pyval \<Rightarrow> pyval \<Rightarrow> (npval \<Rightarrow> error + npval) option
     \<Rightarrow> extinction \<times> (error + npval \<times> real)" where
  "computeA0FromFluxRatio E self measured expected lambda1 lambda2 filterfunc =
     (case resolve_expected measured expected lambda1 lambda2 of
        Inl e \<Rightarrow> (self, Inl e)
      | Inr (Ropt, R0, l1, l2) \<Rightarrow>
          (case Ropt of
             None \<Rightarrow> (self, Inl NameError)
           | Some R \<Rightarrow>
               (case truediv R R0 of
                  Inl e \<Rightarrow> (self, Inl e)
                | Inr q \<Rightarrow>
                    (let m = np_map (\<lambda>u. - 2.5 * u) (np_map (log 10) q)
                     in case Extinction_f E self (arg_of l1) of
                          Inl e \<Rightarrow> (self, Inl e)
                        | Inr f1 \<Rightarrow>
                            (case Extinction_f E self (arg_of l2) of
                               Inl e \<Rightarrow> (self, Inl e)
                             | Inr f2 \<Rightarrow>
                                 (case np_binop (-) f1 f2 of
                                    Inl e \<Rightarrow> (self, Inl e)
                                  | Inr d \<Rightarrow>
                                      (case np_binop (/) m d of
                                         Inl e \<Rightarrow> (self, Inl e)
                                       | Inr a \<Rightarrow>
                                           (case apply_filterfunc filterfunc a of
                                              Inl e \<Rightarrow> (self, Inl e)
                                            | Inr a' \<Rightarrow>
                                                (self\<lparr>A0 := a'\<rparr>, Inr (a', np_std a'))))))))))"

section \<open>Verified properties\<close>

subsection \<open>Masked updates\<close>

lemma mask_iadd_map:
  "mask_iadd (map c xs) (map g xs) (map h (compress (map c xs) xs))
     = map (\<lambda>x. if c x then g x + h x else g x) xs"
  by (induction xs) simp_all

lemma map2_same: "map2 f (map g xs) (map h xs) = map (\<lambda>x. f (g x) (h x)) xs"
  by (induction xs) simp_all

text \<open>
  On an array of non-zero wavelengths the masked update gives, element by element,
  what the scalar branch gives for that element alone.
\<close>

lemma fm_f_array_elementwise:
  assumes "0 \<notin> set ls"
  shows "fm_f_array p ls = map (fm_f_scalar p) ls"
proof -
  let ?x = "\<lambda>l::real. 10000 / l"
  let ?g = "\<lambda>l. C1 p + C2 p * ?x l + C3 p * fm_D p (?x l * ?x l)"
  have base: "map2 (\<lambda>v d. C1 p + C2 p * v + C3 p * d) (map ?x ls)
                (map (fm_D p) (map (\<lambda>v. v * v) (map ?x ls))) = map ?g ls"
    by (simp add: map2_same comp_def)
  have upd: "mask_iadd (map (\<lambda>v. v \<ge> 5.9) (map ?x ls)) (map ?g ls)
               (map (fm_C4term p) (compress (map (\<lambda>v. v \<ge> 5.9) (map ?x ls)) (map ?x ls)))
             = map (\<lambda>l. if ?x l \<ge> 5.9 then ?g l + fm_C4term p (?x l) else ?g l) ls"
    using mask_iadd_map [of "\<lambda>v. v \<ge> 5.9" "map ?x ls" "\<lambda>v. C1 p + C2 p * v + C3 p * fm_D p (v * v)" "fm_C4term p"]
    by (simp add: comp_def)
  show ?thesis
    unfolding fm_f_array_def fm_f_scalar_def Let_def base upd
    by (simp add: comp_def)
qed

text \<open>
  C8. The claim is that \<open>FMExtinction.f\<close> computes \<open>x = 10000/\<lambda>\<close>, the
  Lorentzian \<open>D(x)\<close> and the base \<open>C1 + C2*x + C3*D\<close>, adds the cubic term for
  \<open>x \<ge> 5.9\<close> through a mask and adds \<open>Rv\<close>. The term the source computes,
  \<open>xsq*((xsq-x0*x0)**2+xsq*gamma*gamma)**-2\<close>, divides by the square of the
  Lorentzian's denominator: for the SMC law at 2000 angstrom, where \<open>x = 5\<close>, the
  source's term is \<open>25/39.7456^2\<close> and the Lorentzian is \<open>25/39.7456\<close>, and the
  shape returned is the one built on the former.
\<close>

theorem fm_f_not_lorentzian:
  "fm_D p xsq = xsq / ((xsq - x0 p * x0 p)\<^sup>2 + xsq * gamma p * gamma p)\<^sup>2
   \<and> Extinction_f E \<lparr>cls = SMCExtinction rv, f_attr = None, A0 = a0, plbuf = pb\<rparr>
        (Numeric (Scalar 2000))
       = Inr (Scalar (- 4.959 + 2.264 * 5 + 0.389 * (25 / 39.7456\<^sup>2) + rv))
   \<and> lorentzian_D 4.6 1 5 = 25 / 39.7456
   \<and> Extinction_f E \<lparr>cls = SMCExtinction rv, f_attr = None, A0 = a0, plbuf = pb\<rparr>
        (Numeric (Scalar 2000))
       \<noteq> Inr (Scalar (- 4.959 + 2.264 * 5 + 0.389 * lorentzian_D 4.6 1 5 + rv))"
proof -
  have D: "fm_D p xsq = xsq / ((xsq - x0 p * x0 p)\<^sup>2 + xsq * gamma p * gamma p)\<^sup>2" for p xsq
    by (simp add: fm_D_def power_int_minus divide_inverse)
  have code: "Extinction_f E \<lparr>cls = SMCExtinction rv, f_attr = None, A0 = a0, plbuf = pb\<rparr>
        (Numeric (Scalar 2000))
       = Inr (Scalar (- 4.959 + 2.264 * 5 + 0.389 * (25 / 39.7456\<^sup>2) + rv))"
    by (simp add: Extinction_f_def SMCExtinction_def fm_f_def fm_f_scalar_def D Let_def
        power2_eq_square)
  have L: "lorentzian_D 4.6 1 5 = 25 / 39.7456"
    by (simp add: lorentzian_D_def power2_eq_square)
  have ne: "(- 4.959 + 2.264 * 5 + 0.389 * (25 / 39.7456\<^sup>2) + rv :: real)
              \<noteq> - 4.959 + 2.264 * 5 + 0.389 * (25 / 39.7456) + rv"
    by (simp add: power2_eq_square)
  show ?thesis
    using ne by (simp only: D code L sum.inject npval.inject simp_thms)
qed

subsection \<open>The domain of the Cardelli law\<close>

lemma mask_put_map:
  "length as = length xs \<Longrightarrow>
   mask_put (map c xs) as (map h (compress (map c xs) xs))
     = map2 (\<lambda>x a. if c x then h x else a) xs as"
  by (induction xs arbitrary: as) (auto simp: length_Suc_conv)

lemma length_mask_put [simp]: "length (mask_put ms as vs) = length as"
  by (induction ms as vs rule: mask_put.induct) (auto split: list.splits)

lemma map2_map2_snd:
  "map2 f xs (map2 g xs ys) = map2 (\<lambda>x y. f x (g x y)) xs ys"
  by (induction xs arbitrary: ys) (auto simp: zip_Cons1 split: list.splits)

lemma map2_map_snd: "map2 f xs (map h xs) = map (\<lambda>x. f x (h x)) xs"
  by (induction xs) simp_all

lemma map2_const_on:
  "length ys = length xs \<Longrightarrow> (\<And>x y. x \<in> set xs \<Longrightarrow> f x y = g x) \<Longrightarrow> map2 f xs ys = map g xs"
  by (induction xs arbitrary: ys) (auto simp: length_Suc_conv)

lemma five_puts:
  assumes len: "length a0 = length xs"
  shows "mask_put (map c5 xs)
          (mask_put (map c4 xs)
            (mask_put (map c3 xs)
              (mask_put (map c2 xs)
                (mask_put (map c1 xs) a0 (map h1 (compress (map c1 xs) xs)))
                (map h2 (compress (map c2 xs) xs)))
              (map h3 (compress (map c3 xs) xs)))
            (map h4 (compress (map c4 xs) xs)))
          (map h5 (compress (map c5 xs) xs))
        = map2 (\<lambda>x a. if c5 x then h5 x else if c4 x then h4 x else if c3 x then h3 x
                        else if c2 x then h2 x else if c1 x then h1 x else a) xs a0"
  using len by (simp add: mask_put_map map2_map2_snd)

lemma ccm_a_puts:
  fixes t0 t1 t2 t3 :: real
  assumes len: "length a0 = length xs"
    and rng: "\<And>v. v \<in> set xs \<Longrightarrow> t0 \<le> v \<and> v \<le> 10"
    and ord: "t0 \<le> t1" "t1 \<le> t2" "t2 \<le> t3" "t3 \<le> 8"
  shows "map2 (\<lambda>x a. if 8 \<le> x \<and> x \<le> 10 then h5 x else if t3 \<le> x \<and> x \<le> 8 then h4 x
                      else if t2 \<le> x \<and> x \<le> t3 then h3 x
                        else if t1 \<le> x \<and> x \<le> t2 then h2 x else if t0 \<le> x \<and> x \<le> t1 then h1 x else a) xs a0
       = map (\<lambda>x. if 8 \<le> x then h5 x else if t3 \<le> x then h4 x else if t2 \<le> x then h3 x
                        else if t1 \<le> x then h2 x else h1 x) xs"
  by (rule map2_const_on [OF len]) (use rng ord in force)

subsection \<open>Doubles\<close>

lemma floor_log2_eq:
  assumes "2 powi e \<le> \<bar>v\<bar>" "\<bar>v\<bar> < 2 powi (e + 1)"
  shows "\<lfloor>log 2 \<bar>v\<bar>\<rfloor> = e"
proof -
  have pos: "0 < \<bar>v\<bar>" using assms(1) by (smt (verit) zero_less_power_int)
  have 1: "of_int e \<le> log 2 \<bar>v\<bar>"
    using assms(1) pos by (simp add: le_log_iff powr_real_of_int')
  have 2: "log 2 \<bar>v\<bar> < of_int (e + 1)"
    using assms(2) pos by (simp add: log_less_iff powr_real_of_int' del: of_int_add)
  show ?thesis using 1 2 by (simp add: floor_eq_iff)
qed

lemma fl64_eval:
  assumes "2 powi e \<le> \<bar>v\<bar>" "\<bar>v\<bar> < 2 powi (e + 1)"
  shows "fl64 v = of_int (round_even (v / 2 powi (e - 52))) * 2 powi (e - 52)"
proof -
  have "v \<noteq> 0" using assms(1) by (smt (verit) zero_less_power_int abs_zero)
  then show ?thesis by (simp add: fl64_def floor_log2_eq [OF assms])
qed

lemma round_even_int: "round_even (of_int n) = n"
  by (simp add: round_even_def)

lemma round_even_down:
  assumes "of_int n \<le> m" "m - of_int n < 1 / 2"
  shows "round_even m = n"
proof -
  have "\<lfloor>m\<rfloor> = n" using assms by (simp add: floor_eq_iff)
  then show ?thesis using assms by (simp add: round_even_def)
qed

lemma round_even_up:
  assumes "m < of_int n" "of_int n - m < 1 / 2"
  shows "round_even m = n"
proof -
  have "\<lfloor>m\<rfloor> = n - 1" using assms by (simp add: floor_eq_iff)
  then show ?thesis using assms by (simp add: round_even_def Let_def)
qed

text \<open>A real number with at most 53 significant bits is its own double.\<close>

lemma fl64_exact:
  assumes "2 powi e \<le> \<bar>v\<bar>" "\<bar>v\<bar> < 2 powi (e + 1)" "v / 2 powi (e - 52) = of_int n"
  shows "fl64 v = v"
proof -
  have "fl64 v = of_int (round_even (of_int n)) * 2 powi (e - 52)"
    using fl64_eval [OF assms(1,2)] assms(3) by simp
  also have "\<dots> = v / 2 powi (e - 52) * 2 powi (e - 52)"
    by (simp only: round_even_int assms(3))
  also have "\<dots> = v" by simp
  finally show ?thesis .
qed

text \<open>The doubles that the literals of the range test denote.\<close>

lemma fl64_0_3: "fl64 0.3 = 5404319552844595 / 18014398509481984"
proof -
  have "fl64 0.3 = of_int (round_even (0.3 / 2 powi (- 2 - 52))) * 2 powi (- 2 - 52)"
    by (rule fl64_eval) (simp_all add: power_int_def power_divide inverse_eq_divide)
  moreover have "round_even (0.3 / 2 powi (- 2 - 52)) = 5404319552844595"
    by (rule round_even_down) (simp_all add: power_int_def power_divide inverse_eq_divide)
  ultimately show ?thesis by (simp add: power_int_def power_divide inverse_eq_divide)
qed

lemma fl64_1_1: "fl64 1.1 = 2476979795053773 / 2251799813685248"
proof -
  have "fl64 1.1 = of_int (round_even (1.1 / 2 powi (0 - 52))) * 2 powi (0 - 52)"
    by (rule fl64_eval) (simp_all add: power_int_def power_divide inverse_eq_divide)
  moreover have "round_even (1.1 / 2 powi (0 - 52)) = 4953959590107546"
    by (rule round_even_up) (simp_all add: power_int_def power_divide inverse_eq_divide)
  ultimately show ?thesis by (simp add: power_int_def power_divide inverse_eq_divide)
qed

lemma fl64_3_3: "fl64 3.3 = 3715469692580659 / 1125899906842624"
proof -
  have "fl64 3.3 = of_int (round_even (3.3 / 2 powi (1 - 52))) * 2 powi (1 - 52)"
    by (rule fl64_eval) (simp_all add: power_int_def power_divide inverse_eq_divide)
  moreover have "round_even (3.3 / 2 powi (1 - 52)) = 7430939385161318"
    by (rule round_even_down) (simp_all add: power_int_def power_divide inverse_eq_divide)
  ultimately show ?thesis by (simp add: power_int_def power_divide inverse_eq_divide)
qed

lemma fl64_5_9: "fl64 5.9 = 3321404725185741 / 562949953421312"
proof -
  have "fl64 5.9 = of_int (round_even (5.9 / 2 powi (2 - 52))) * 2 powi (2 - 52)"
    by (rule fl64_eval) (simp_all add: power_int_def power_divide inverse_eq_divide)
  moreover have "round_even (5.9 / 2 powi (2 - 52)) = 6642809450371482"
    by (rule round_even_up) (simp_all add: power_int_def power_divide inverse_eq_divide)
  ultimately show ?thesis by (simp add: power_int_def power_divide inverse_eq_divide)
qed

text \<open>
  The double 33333.333333333336, which is \<open>1e4/0.3\<close> in float64, has the double
  0.3 as its inverse-micron value; 1000 has 10.
\<close>

lemma fl64_at_boundary_0_3: "fl64 (10000 / (4581298449066667 / 137438953472)) = fl64 0.3"
proof -
  let ?v = "10000 / (4581298449066667 / 137438953472) :: real"
  have "fl64 ?v = of_int (round_even (?v / 2 powi (- 2 - 52))) * 2 powi (- 2 - 52)"
    by (rule fl64_eval) (simp_all add: power_int_def power_divide inverse_eq_divide)
  moreover have "round_even (?v / 2 powi (- 2 - 52)) = 5404319552844595"
    by (rule round_even_up) (simp_all add: power_int_def power_divide inverse_eq_divide)
  ultimately show ?thesis by (simp add: fl64_0_3 power_int_def power_divide inverse_eq_divide)
qed

lemma fl64_10: "fl64 10 = 10"
  by (rule fl64_exact [of 3 _ "10 * 2 ^ 49"]) (simp_all add: power_int_def power_divide inverse_eq_divide)

subsection \<open>The domain of the Cardelli law, continued\<close>

lemma cardelli_f_in_range:
  assumes rng: "\<And>l. l \<in> set (atleast_1d lamb) \<Longrightarrow>
                  fl64 0.3 \<le> fl64 (10000 / l) \<and> fl64 (10000 / l) \<le> 10"
  shows "cardelli_f Rv ga gb lamb =
           (let r = map (\<lambda>l. ccm_a (fl64 (10000 / l)) + ccm_b (fl64 (10000 / l)) / Rv)
                      (atleast_1d lamb)
            in if isscalar lamb then Inr (Scalar (r ! 0)) else Inr (Arr1 r))"
proof -
  define xs where "xs = map (\<lambda>l. fl64 (10000 / l)) (atleast_1d lamb)"
  have rng': "\<And>v. v \<in> set xs \<Longrightarrow> fl64 0.3 \<le> v \<and> v \<le> 10"
    using rng by (auto simp: xs_def)
  have ok: "\<not> list_ex (\<lambda>v. v < fl64 0.3 \<or> 10 < v) xs"
    using rng' by (fastforce simp: list_ex_iff)
  have la: "length (ndarray ga (length xs)) = length xs"
    and lb: "length (ndarray gb (length xs)) = length xs"
    by (simp_all add: ndarray_def)
  have ord: "fl64 0.3 \<le> fl64 1.1" "fl64 1.1 \<le> fl64 3.3" "fl64 3.3 \<le> fl64 5.9" "fl64 5.9 \<le> 8"
    by (simp_all add: fl64_0_3 fl64_1_1 fl64_3_3 fl64_5_9)
  have nuv: "\<And>g k. map2 g (compress (map c xs) xs)
                (map k (map (\<lambda>v. v - 5.9) (compress (map c xs) xs)))
              = map (\<lambda>v. g v (k (v - 5.9))) (compress (map c xs) xs)" for c :: "real \<Rightarrow> bool"
    by (simp add: map2_map_snd comp_def)
  show ?thesis
    unfolding cardelli_f_def Let_def xs_def [symmetric]
    apply (simp only: ok if_False nuv)
    apply (simp only: five_puts [OF la] five_puts [OF lb]
        ccm_a_puts [OF la rng' ord] ccm_a_puts [OF lb rng' ord])
    apply (simp add: map2_map_snd map2_same ccm_a_def ccm_b_def xs_def comp_def cong: if_cong)
    done
qed

lemma cardelli_f_out_of_range:
  assumes "l \<in> set (atleast_1d lamb)"
    and "fl64 (10000 / l) < fl64 0.3 \<or> 10 < fl64 (10000 / l)"
  shows "cardelli_f Rv ga gb lamb = Inl ValueError"
proof -
  have "list_ex (\<lambda>v. v < fl64 0.3 \<or> 10 < v) (map (\<lambda>l. fl64 (10000 / l)) (atleast_1d lamb))"
    using assms unfolding list_ex_iff by (intro bexI [of _ "fl64 (10000 / l)"]) auto
  then show ?thesis
    by (simp add: cardelli_f_def Let_def)
qed

text \<open>
  C2. With \<open>x\<close> the inverse-micron value that the source computes, the float64
  quotient of 10000 and the wavelength, the Cardelli law raises the domain error (the
  source's \<open>ValueError\<close>) whenever \<open>x\<close> is below the double 0.3 or above 10, and
  returns \<open>a(x) + b(x)/Rv\<close> whenever \<open>x\<close> lies between them. The boundary
  \<open>x = 0.3\<close> is reached at the double 33333.333333333336 and the boundary
  \<open>x = 10\<close> at 1000, and both calls succeed. An array that holds one out-of-range
  element makes the call fail as a whole.
\<close>

theorem cardelli_f_domain:
  "(fl64 (10000 / l) < fl64 0.3 \<or> 10 < fl64 (10000 / l)
      \<longrightarrow> cardelli_f Rv ga gb (Scalar l) = Inl ValueError)
   \<and> (fl64 0.3 \<le> fl64 (10000 / l) \<and> fl64 (10000 / l) \<le> 10
      \<longrightarrow> cardelli_f Rv ga gb (Scalar l)
            = Inr (Scalar (ccm_a (fl64 (10000 / l)) + ccm_b (fl64 (10000 / l)) / Rv)))
   \<and> fl64 (10000 / (4581298449066667 / 137438953472)) = fl64 0.3
   \<and> cardelli_f Rv ga gb (Scalar (4581298449066667 / 137438953472))
        = Inr (Scalar (0.574 * fl64 0.3 powr 1.61 + (- 0.527 * fl64 0.3 powr 1.61) / Rv))
   \<and> fl64 (10000 / 1000) = 10
   \<and> cardelli_f Rv ga gb (Scalar 1000) = Inr (Scalar (- 2.341 + 23.496 / Rv))
   \<and> (k \<in> set ls \<and> (fl64 (10000 / k) < fl64 0.3 \<or> 10 < fl64 (10000 / k))
      \<longrightarrow> cardelli_f Rv ga gb (Arr1 ls) = Inl ValueError)"
proof (intro conjI impI)
  assume "fl64 (10000 / l) < fl64 0.3 \<or> 10 < fl64 (10000 / l)"
  then show "cardelli_f Rv ga gb (Scalar l) = Inl ValueError"
    by (intro cardelli_f_out_of_range [of l]) simp_all
next
  assume "fl64 0.3 \<le> fl64 (10000 / l) \<and> fl64 (10000 / l) \<le> 10"
  then show "cardelli_f Rv ga gb (Scalar l)
               = Inr (Scalar (ccm_a (fl64 (10000 / l)) + ccm_b (fl64 (10000 / l)) / Rv))"
    by (subst cardelli_f_in_range) simp_all
next
  show "fl64 (10000 / (4581298449066667 / 137438953472)) = fl64 0.3"
    by (rule fl64_at_boundary_0_3)
next
  define c :: real where "c = 4581298449066667 / 137438953472"
  have B: "fl64 (10000 / c) = fl64 0.3"
    unfolding c_def by (rule fl64_at_boundary_0_3)
  have lt: "fl64 0.3 < fl64 1.1" by (simp add: fl64_0_3 fl64_1_1)
  have le: "fl64 0.3 \<le> 10" by (simp add: fl64_0_3)
  have rng: "fl64 0.3 \<le> fl64 (10000 / l) \<and> fl64 (10000 / l) \<le> 10"
    if "l \<in> set (atleast_1d (Scalar c))" for l
  proof -
    from that have "l = c" by simp
    then show ?thesis using le B by simp
  qed
  have "cardelli_f Rv ga gb (Scalar c)
          = Inr (Scalar (ccm_a (fl64 (10000 / c)) + ccm_b (fl64 (10000 / c)) / Rv))"
    using cardelli_f_in_range [of "Scalar c", OF rng] by (simp add: Let_def)
  then have "cardelli_f Rv ga gb (Scalar c) = Inr (Scalar (ccm_a (fl64 0.3) + ccm_b (fl64 0.3) / Rv))"
    by (simp only: B)
  moreover have "ccm_a (fl64 0.3) = 0.574 * fl64 0.3 powr 1.61"
    "ccm_b (fl64 0.3) = - 0.527 * fl64 0.3 powr 1.61"
    using lt by (simp_all add: ccm_a_def ccm_b_def fl64_0_3 fl64_1_1 fl64_3_3 fl64_5_9)
  ultimately show "cardelli_f Rv ga gb (Scalar (4581298449066667 / 137438953472))
        = Inr (Scalar (0.574 * fl64 0.3 powr 1.61 + (- 0.527 * fl64 0.3 powr 1.61) / Rv))"
    unfolding c_def by simp
next
  show "fl64 (10000 / 1000) = 10"
    by (simp add: fl64_10)
next
  have x: "fl64 (10000 / 1000) = 10" by (simp add: fl64_10)
  have le: "fl64 0.3 \<le> 10" by (simp add: fl64_0_3)
  have "cardelli_f Rv ga gb (Scalar 1000) = Inr (Scalar (ccm_a 10 + ccm_b 10 / Rv))"
    by (subst cardelli_f_in_range) (simp_all add: fl64_10 fl64_0_3)
  then show "cardelli_f Rv ga gb (Scalar 1000) = Inr (Scalar (- 2.341 + 23.496 / Rv))"
    by (simp add: ccm_a_def ccm_b_def polyval_def)
next
  assume "k \<in> set ls \<and> (fl64 (10000 / k) < fl64 0.3 \<or> 10 < fl64 (10000 / k))"
  then show "cardelli_f Rv ga gb (Arr1 ls) = Inl ValueError"
    by (intro cardelli_f_out_of_range [of k]) simp_all
qed

theorem cardelli_f_domain_witness:
  "cardelli_f 3.1 (\<lambda>_. 0) (\<lambda>_. 0) (Scalar 500) = Inl ValueError
   \<and> cardelli_f 3.1 (\<lambda>_. 0) (\<lambda>_. 0) (Scalar 40000) = Inl ValueError
   \<and> cardelli_f 3.1 (\<lambda>_. 0) (\<lambda>_. 0) (Scalar 2000) = Inr (Scalar (ccm_a 5 + ccm_b 5 / 3.1))
   \<and> cardelli_f 3.1 (\<lambda>_. 0) (\<lambda>_. 0) (Arr1 [5000, 500, 2000]) = Inl ValueError"
proof -
  have x20: "fl64 20 = 20"
    by (rule fl64_exact [of 4 _ "20 * 2 ^ 48"])
       (simp_all add: power_int_def power_divide inverse_eq_divide)
  have x025: "fl64 (1 / 4) = 1 / 4"
    by (rule fl64_exact [of "- 2" _ "2 ^ 52"])
       (simp_all add: power_int_def power_divide inverse_eq_divide)
  have x5: "fl64 5 = 5"
    by (rule fl64_exact [of 2 _ "5 * 2 ^ 50"])
       (simp_all add: power_int_def power_divide inverse_eq_divide)
  show ?thesis
    using cardelli_f_domain [of 500 "3.1" "\<lambda>_. 0" "\<lambda>_. 0" 500 "[5000, 500, 2000]"]
      cardelli_f_domain [of 40000 "3.1" "\<lambda>_. 0" "\<lambda>_. 0" 500 "[]"]
      cardelli_f_domain [of 2000 "3.1" "\<lambda>_. 0" "\<lambda>_. 0" 500 "[]"]
    by (simp add: x20 x025 x5 fl64_0_3)
qed

subsection \<open>The colour excess\<close>

lemma Extinction_f_A0 [simp]: "Extinction_f E (self\<lparr>A0 := a\<rparr>) lamb = Extinction_f E self lamb"
  by (simp add: Extinction_f_def split: option.splits)

lemma cardelli_f_scalar:
  "cardelli_f rv ga gb (Scalar l) = Inr v \<Longrightarrow> \<exists>s. v = Scalar s"
  by (auto simp: cardelli_f_def Let_def split: if_splits)

lemma Extinction_f_scalar:
  "Extinction_f E self (Numeric (Scalar l)) = Inr v \<Longrightarrow> \<exists>s. v = Scalar s"
  by (auto simp: Extinction_f_def calzetti_f_def fm_f_def
      split: option.splits law_class.splits dest: cardelli_f_scalar)

text \<open>
  C5. On a law normalized by the colour excess whose shape function returns a value
  \<open>s\<close> at the V-band wavelength, assigning \<open>c\<close> to the property \<open>EBmV\<close> stores
  the normalization \<open>Rv*c/s\<close>, and reading the property back returns \<open>c\<close>. Over
  the reals the round trip is exact; it needs \<open>Rv\<close> and \<open>s\<close> different from 0,
  the values for which the two quotients of the source are defined.
\<close>

theorem EBmV_roundtrip:
  assumes rv: "law_Rv (cls self) = Some rv" "rv \<noteq> 0"
    and lV: "bandwl E ''V'' = Some lambdaV"
    and f: "Extinction_f E self (Numeric (Scalar lambdaV)) = Inr (Scalar s)" "s \<noteq> 0"
  shows "setEBmV E self (Scalar c) = Inr (self\<lparr>A0 := Scalar (rv * c / s)\<rparr>)
         \<and> getEBmV E (self\<lparr>A0 := Scalar (rv * c / s)\<rparr>) = Inr (Scalar c)"
  using assms by (simp add: setEBmV_def getEBmV_def Extinction_call_def)

theorem EBmV_roundtrip_witness:
  "setEBmV \<lparr>bandwl = [''V'' \<mapsto> 5500], xconv = (\<lambda>u w xs. xs), uninit_a = (\<lambda>i. 0),
             uninit_b = (\<lambda>i. 0), has_insert = False\<rparr>
      \<lparr>cls = LMCExtinction 3.41, f_attr = None, A0 = Scalar 1, plbuf = None\<rparr> (Scalar 0.3)
    = Inr \<lparr>cls = LMCExtinction 3.41, f_attr = None,
           A0 = Scalar (3.41 * 0.3 / (25323643687511379150286717137777167791272 / 5842161328537138855980576520879799616275)),
           plbuf = None\<rparr>
   \<and> getEBmV \<lparr>bandwl = [''V'' \<mapsto> 5500], xconv = (\<lambda>u w xs. xs), uninit_a = (\<lambda>i. 0),
             uninit_b = (\<lambda>i. 0), has_insert = False\<rparr>
      \<lparr>cls = LMCExtinction 3.41, f_attr = None,
           A0 = Scalar (3.41 * 0.3 / (25323643687511379150286717137777167791272 / 5842161328537138855980576520879799616275)),
           plbuf = None\<rparr>
    = Inr (Scalar 0.3)"
proof -
  let ?E = "\<lparr>bandwl = [''V'' \<mapsto> 5500], xconv = (\<lambda>u w xs. xs), uninit_a = (\<lambda>i. 0),
             uninit_b = (\<lambda>i. 0), has_insert = False\<rparr>"
  let ?L = "\<lparr>cls = LMCExtinction 3.41, f_attr = None, A0 = Scalar 1, plbuf = None\<rparr>"
  let ?s = "25323643687511379150286717137777167791272 / 5842161328537138855980576520879799616275 :: real"
  have 1: "law_Rv (cls ?L) = Some 3.41" by (simp add: LMCExtinction_def)
  have 2: "(3.41::real) \<noteq> 0" by simp
  have 3: "bandwl ?E ''V'' = Some 5500" by simp
  have 4: "Extinction_f ?E ?L (Numeric (Scalar 5500)) = Inr (Scalar ?s)"
    by (simp add: Extinction_f_def LMCExtinction_def fm_f_def fm_f_scalar_def fm_D_def
        fm_C4term_def Let_def power_int_def power2_eq_square)
  have 5: "?s \<noteq> 0" by simp
  show ?thesis
    using EBmV_roundtrip [OF 1 2 3 4 5, of "0.3"] by simp
qed

subsection \<open>The constructor\<close>

text \<open>
  C10. \<open>Extinction.__init__\<close> tests its argument \<open>f\<close> the wrong way round: every
  callable makes it raise \<open>ValueError\<close>, and every other value that is not
  \<open>None\<close> is stored as the attribute \<open>f\<close> of the instance, where any later call
  of \<open>f\<close> is a \<open>TypeError\<close>.
\<close>

theorem Extinction_init_inverted:
  "Extinction_init (FCallable g) a0 = Inl ValueError
   \<and> Extinction_init (FNonCallable v) a0
        = Inr \<lparr>cls = Extinction, f_attr = Some v, A0 = a0, plbuf = None\<rparr>
   \<and> Extinction_f E \<lparr>cls = Extinction, f_attr = Some v, A0 = a0, plbuf = None\<rparr> lamb = Inl TypeError"
  by (simp add: Extinction_init_def Extinction_f_def)

subsection \<open>The pipeline methods\<close>

text \<open>
  C3. The claim is that \<open>extract()\<close> on an empty ready queue returns \<open>None\<close>
  without raising and otherwise returns the oldest ready entry. The method evaluates
  \<open>len(self._plbuffer['out']<1)\<close>, the length of a boolean, so every call raises
  \<open>TypeError\<close>: on a fresh adapter, after \<open>clear()\<close>, and with entries ready.
\<close>

theorem plExtract_raises:
  "plExtract self = (plbuffer_init self, Inl TypeError)
   \<and> plExtract \<lparr>cls = c, f_attr = None, A0 = a0, plbuf = None\<rparr>
       = (\<lparr>cls = c, f_attr = None, A0 = a0, plbuf = Some \<lparr>inq = [], outq = []\<rparr>\<rparr>, Inl TypeError)
   \<and> snd (plExtract (plClear self)) = Inl TypeError
   \<and> plExtract (self\<lparr>plbuf := Some \<lparr>inq = pending, outq = r # ready\<rparr>\<rparr>)
       = (self\<lparr>plbuf := Some \<lparr>inq = pending, outq = r # ready\<rparr>\<rparr>, Inl TypeError)"
  by (simp add: plExtract_def Let_def py2_list_lt_int_def plbuffer_init_def plClear_def)

text \<open>When the correction succeeds, its result joins the ready queue.\<close>

lemma plProcess_success:
  assumes "plbuf self = Some \<lparr>inq = (''spec'', r) # pending, outq = ready\<rparr>"
    and "correctSpectrum E (self\<lparr>plbuf := Some \<lparr>inq = pending, outq = ready\<rparr>\<rparr>) st r True
           = (st', Inr n)"
  shows "plProcess E self st
           = ((self\<lparr>plbuf := Some \<lparr>inq = pending, outq = ready @ [n]\<rparr>\<rparr>, st'), Inr ())"
  using assms
  by (simp add: plProcess_def Let_def plbuffer_init_def the_plbuffer_def)

lemma plFeed_spectrum:
  "plFeed \<lparr>cls = c, f_attr = fa, A0 = a0, plbuf = None\<rparr> (SpectrumObj r)
     = (\<lparr>cls = c, f_attr = fa, A0 = a0, plbuf = Some \<lparr>inq = [(''spec'', r)], outq = []\<rparr>\<rparr>, Inr ())"
  by (simp add: plFeed_def Let_def plbuffer_init_def the_plbuffer_def)

text \<open>
  C6. The claim is that an entry whose correction raises goes back to the front of the
  pending queue. The handler \<open>self.insert(0,spec(type,data))\<close> raises itself, so
  the entry taken from the queue is lost: here on the base class, whose shape function
  raises \<open>NotImplementedError\<close>.
\<close>

theorem plProcess_drops_failed_entry:
  "fst (fst (plProcess E \<lparr>cls = Extinction, f_attr = None, A0 = a0,
                          plbuf = Some \<lparr>inq = (''spec'', r) # pending, outq = ready\<rparr>\<rparr> st))
     = \<lparr>cls = Extinction, f_attr = None, A0 = a0, plbuf = Some \<lparr>inq = pending, outq = ready\<rparr>\<rparr>
   \<and> snd (plProcess E \<lparr>cls = Extinction, f_attr = None, A0 = a0,
                       plbuf = Some \<lparr>inq = (''spec'', r) # pending, outq = ready\<rparr>\<rparr> st)
     = Inl (if has_insert E then NameError else AttributeError)"
  by (simp add: plProcess_def Let_def plbuffer_init_def the_plbuffer_def plProcess_handler_def
      correctSpectrum_def Extinction_call_def Extinction_f_def spectrum_copy_def split: prod.splits)

subsection \<open>correctColor\<close>

lemma split_EBV: "py_split CHR '','' (py_replace (py_replace ''E(B-V)'' ''E('' '''') '')'' '''') = [''B-V'']"
  by (simp add: py_replace_def)

text \<open>The comma form and pairs of one kind are corrected as documented.\<close>

lemma correctColor_comma_form:
  assumes "bandwl E ''B'' = Some wB" "bandwl E ''V'' = Some wV"
    and "Extinction_call E self (Numeric (Scalar wB)) = Inr (Scalar eB)"
    and "Extinction_call E self (Numeric (Scalar wV)) = Inr (Scalar eV)"
  shows "correctColor E self (Scalar c) (BandsStr ''B,V'') = Inr (Scalar (c - eB + eV))"
    and "correctColor E self (Scalar c) (BandsSeq [AStr ''B'', AStr ''V'']) = Inr (Scalar (c - eB + eV))"
    and "correctColor E self (Scalar c) (BandsSeq [ANum wB, ANum wV]) = Inr (Scalar (c - eB + eV))"
  using assms by (simp_all add: correctColor_def py_replace_def bandwl_getitem_def)

text \<open>
  C4. The claim is that the string form \<open>E(band1-band2)\<close> parses and that the
  second band is resolved by its own type. The source splits at a comma only, so
  \<open>E(B-V)\<close> is one piece and the unpacking raises \<open>ValueError\<close>; and it decides
  the lookup of the second band by the type of the first, so a name followed by a
  wavelength is a \<open>KeyError\<close> and a wavelength followed by a name passes the name
  to the shape function.
\<close>

theorem correctColor_defects:
  "correctColor E self colors (BandsStr ''E(B-V)'') = Inl ValueError
   \<and> correctColor E self colors (BandsSeq [AStr b, ANum w]) = Inl KeyError
   \<and> correctColor E \<lparr>cls = CalzettiExtinction, f_attr = None, A0 = Scalar a, plbuf = None\<rparr>
        (Scalar c) (BandsSeq [ANum w, AStr b]) = Inl TypeError"
  by (simp add: correctColor_def split_EBV bandwl_getitem_def Extinction_call_def
      Extinction_f_def calzetti_f_def split: option.splits)

subsection \<open>correctSpectrum\<close>

lemma np_imul_same_length:
  "length ev = length a \<Longrightarrow> np_imul a (Arr1 ev) = Inr (map2 (*) a ev)"
  by simp

lemma map2_mult_map:
  "map2 (*) a (map h ev) = map2 (\<lambda>v e. v * h e) a (ev :: real list)"
  by (induction a arbitrary: ev) (auto simp: zip_Cons1 split: list.splits)

text \<open>
  C9. When the law evaluates on the axis read in angstrom to the array \<open>ev\<close>, one
  value for each flux and each error, \<open>correctSpectrum\<close> multiplies flux and error
  element by element by \<open>10^(ev/2.5)\<close> and leaves the unit tag as it was. By default
  this happens on a copy, returned under a new reference, and the spectrum passed in is
  unchanged; with \<open>newspec=False\<close> the spectrum passed in is changed and returned.
\<close>

theorem correctSpectrum_correct:
  assumes ref: "spec0 < fresh st0"
    and ev: "Extinction_call E self
               (Numeric (Arr1 (xconv E (spec_unit (objs st0 spec0)) ''wavelength-angstrom''
                                 (spec_x (objs st0 spec0))))) = Inr (Arr1 ev)"
    and len: "length ev = length (spec_flux (objs st0 spec0))"
             "length ev = length (spec_err (objs st0 spec0))"
  shows "snd (correctSpectrum E self st0 spec0 True) = Inr (fresh st0)
         \<and> objs (fst (correctSpectrum E self st0 spec0 True)) spec0 = objs st0 spec0
         \<and> spec_flux (objs (fst (correctSpectrum E self st0 spec0 True)) (fresh st0))
             = map2 (\<lambda>v e. v * 10 powr (e / 2.5)) (spec_flux (objs st0 spec0)) ev
         \<and> spec_err (objs (fst (correctSpectrum E self st0 spec0 True)) (fresh st0))
             = map2 (\<lambda>v e. v * 10 powr (e / 2.5)) (spec_err (objs st0 spec0)) ev
         \<and> spec_unit (objs (fst (correctSpectrum E self st0 spec0 True)) (fresh st0))
             = spec_unit (objs st0 spec0)
         \<and> snd (correctSpectrum E self st0 spec0 False) = Inr spec0
         \<and> spec_flux (objs (fst (correctSpectrum E self st0 spec0 False)) spec0)
             = map2 (\<lambda>v e. v * 10 powr (e / 2.5)) (spec_flux (objs st0 spec0)) ev
         \<and> spec_err (objs (fst (correctSpectrum E self st0 spec0 False)) spec0)
             = map2 (\<lambda>v e. v * 10 powr (e / 2.5)) (spec_err (objs st0 spec0)) ev
         \<and> spec_unit (objs (fst (correctSpectrum E self st0 spec0 False)) spec0)
             = spec_unit (objs st0 spec0)"
proof -
  have neq: "spec0 \<noteq> fresh st0" using ref by simp
  show ?thesis
    using ev neq len
    by (simp add: correctSpectrum_def spectrum_copy_def upd_obj_def set_unit_def Let_def
        map2_mult_map)
qed

theorem correctSpectrum_correct_witness:
  "snd (correctSpectrum
          \<lparr>bandwl = Map.empty, xconv = (\<lambda>u w xs. xs), uninit_a = (\<lambda>i. 0), uninit_b = (\<lambda>i. 0),
           has_insert = False\<rparr>
          \<lparr>cls = FMExtinction \<lparr>C1 = 1, C2 = 0, C3 = 0, C4 = 0, x0 = 1, gamma = 1, fmRv = 3\<rparr>,
           f_attr = None, A0 = Scalar 0.625, plbuf = None\<rparr>
          \<lparr>objs = (\<lambda>r. \<lparr>spec_x = [5000], spec_flux = [2], spec_err = [1],
                         spec_unit = ''wavelength-angstrom''\<rparr>), fresh = 1\<rparr>
          0 True) = Inr 1
   \<and> spec_flux (objs (fst (correctSpectrum
          \<lparr>bandwl = Map.empty, xconv = (\<lambda>u w xs. xs), uninit_a = (\<lambda>i. 0), uninit_b = (\<lambda>i. 0),
           has_insert = False\<rparr>
          \<lparr>cls = FMExtinction \<lparr>C1 = 1, C2 = 0, C3 = 0, C4 = 0, x0 = 1, gamma = 1, fmRv = 3\<rparr>,
           f_attr = None, A0 = Scalar 0.625, plbuf = None\<rparr>
          \<lparr>objs = (\<lambda>r. \<lparr>spec_x = [5000], spec_flux = [2], spec_err = [1],
                         spec_unit = ''wavelength-angstrom''\<rparr>), fresh = 1\<rparr>
          0 True)) 1) = [20]
   \<and> spec_flux (objs (fst (correctSpectrum
          \<lparr>bandwl = Map.empty, xconv = (\<lambda>u w xs. xs), uninit_a = (\<lambda>i. 0), uninit_b = (\<lambda>i. 0),
           has_insert = False\<rparr>
          \<lparr>cls = FMExtinction \<lparr>C1 = 1, C2 = 0, C3 = 0, C4 = 0, x0 = 1, gamma = 1, fmRv = 3\<rparr>,
           f_attr = None, A0 = Scalar 0.625, plbuf = None\<rparr>
          \<lparr>objs = (\<lambda>r. \<lparr>spec_x = [5000], spec_flux = [2], spec_err = [1],
                         spec_unit = ''wavelength-angstrom''\<rparr>), fresh = 1\<rparr>
          0 True)) 0) = [2]
   \<and> spec_err (objs (fst (correctSpectrum
          \<lparr>bandwl = Map.empty, xconv = (\<lambda>u w xs. xs), uninit_a = (\<lambda>i. 0), uninit_b = (\<lambda>i. 0),
           has_insert = False\<rparr>
          \<lparr>cls = FMExtinction \<lparr>C1 = 1, C2 = 0, C3 = 0, C4 = 0, x0 = 1, gamma = 1, fmRv = 3\<rparr>,
           f_attr = None, A0 = Scalar 0.625, plbuf = None\<rparr>
          \<lparr>objs = (\<lambda>r. \<lparr>spec_x = [5000], spec_flux = [2], spec_err = [1],
                         spec_unit = ''wavelength-angstrom''\<rparr>), fresh = 1\<rparr>
          0 False)) 0) = [10]"
proof -
  let ?E = "\<lparr>bandwl = Map.empty, xconv = (\<lambda>u w xs. xs), uninit_a = (\<lambda>i. 0), uninit_b = (\<lambda>i. 0),
           has_insert = False\<rparr> :: env"
  let ?L = "\<lparr>cls = FMExtinction \<lparr>C1 = 1, C2 = 0, C3 = 0, C4 = 0, x0 = 1, gamma = 1, fmRv = 3\<rparr>,
           f_attr = None, A0 = Scalar 0.625, plbuf = None\<rparr>"
  let ?S = "\<lparr>objs = (\<lambda>r. \<lparr>spec_x = [5000], spec_flux = [2], spec_err = [1],
                         spec_unit = ''wavelength-angstrom''\<rparr>), fresh = 1\<rparr>"
  have 1: "(0::nat) < fresh ?S" by simp
  have 2: "Extinction_call ?E ?L
             (Numeric (Arr1 (xconv ?E (spec_unit (objs ?S 0)) ''wavelength-angstrom''
                               (spec_x (objs ?S 0))))) = Inr (Arr1 [2.5])"
    by (simp add: Extinction_call_def Extinction_f_def fm_f_def fm_f_array_def fm_D_def
        fm_C4term_def Let_def)
  have 3: "length [2.5::real] = length (spec_flux (objs ?S 0))" by simp
  have 4: "length [2.5::real] = length (spec_err (objs ?S 0))" by simp
  show ?thesis
    using correctSpectrum_correct [OF 1 2 3 4] by simp
qed

subsection \<open>Calibration from flux ratios\<close>

text \<open>
  A call that raises leaves the normalization as it was: the assignment to \<open>A0\<close> is
  the last statement but one, and the standard deviation of a number or a numeric array,
  which follows it, does not raise. A sequence that starts with a transition and holds a
  number, and numeric ratios without both wavelengths, raise \<open>ValueError\<close>.
\<close>

lemma computeA0_error_keeps_A0:
  "snd (computeA0FromFluxRatio E self measured expected lambda1 lambda2 filterfunc) = Inl e
   \<Longrightarrow> fst (computeA0FromFluxRatio E self measured expected lambda1 lambda2 filterfunc) = self"
  unfolding computeA0FromFluxRatio_def Let_def
  by (simp only: split: sum.splits option.splits prod.splits)
     (auto simp only: fst_conv snd_conv sum.inject sum.distinct)

lemma computeA0_mixed_name_first:
  "computeA0FromFluxRatio E self measured (PList (AStr k # es @ [ANum r] @ es')) lambda1 lambda2 filterfunc
   = (self, Inl ValueError)"
  by (simp add: computeA0FromFluxRatio_def resolve_expected_def)

lemma computeA0_missing_wavelengths:
  "getitem0 expected = Inr (ANum r) \<Longrightarrow> lambda1 = PNone \<or> lambda2 = PNone \<Longrightarrow>
   computeA0FromFluxRatio E self measured expected lambda1 lambda2 filterfunc = (self, Inl ValueError)"
  by (cases expected rule: getitem0.cases; cases lambda1 rule: py_truth.cases)
     (auto simp: computeA0FromFluxRatio_def resolve_expected_def)

text \<open>
  C7. The claim is that a sequence mixing transitions and numbers raises an error of the
  class \<open>ValueError\<close>. The source checks the items only when the first one is a
  string; a sequence that starts with a number and is given with wavelengths reaches
  the arithmetic, where the array of strings that \<open>np.array\<close> made of it is no
  operand of the division and the call raises \<open>TypeError\<close>; so does a single
  number as expected ratio, which has no item 0. The normalization is unchanged there
  too.
\<close>

theorem computeA0_mixed_numeric_first:
  "computeA0FromFluxRatio E self (PList [ANum 1, ANum 1]) (PList [ANum 2.86, AStr ''Hab''])
      (PList [ANum 6562.82, ANum 6562.82]) (PList [ANum 4861.33, ANum 4861.33]) None
   = (self, Inl TypeError)
   \<and> computeA0FromFluxRatio E self measured (PNum r) lambda1 lambda2 filterfunc
   = (self, Inl TypeError)"
  by (simp add: computeA0FromFluxRatio_def resolve_expected_def truediv_def)













end
